theory Spec2Isabelle
  imports Main "HOL-Library.Word"
begin

section \<open>Values of the host language\<close>

text \<open>
  The value tree that \<^verbatim>\<open>JSON.parse\<close> produces. Numbers are kept abstract (the type
  parameter): nothing in the program computes with them, only their truthiness is ever
  looked at. An object is the list of its own properties in insertion order.
\<close>

datatype 'n json =
    JNull
  | JBool bool
  | JNum 'n
  | JStr string
  | JArr "'n json list"
  | JObj "(string \<times> 'n json) list"

text \<open>JavaScript truthiness of such a value, as used by \<^verbatim>\<open>data || {}\<close>.\<close>

fun truthy :: "('n::zero) json \<Rightarrow> bool" where
  "truthy JNull = False"
| "truthy (JBool b) = b"
| "truthy (JNum n) = (n \<noteq> 0)"
| "truthy (JStr s) = (s \<noteq> [])"
| "truthy (JArr xs) = True"
| "truthy (JObj kvs) = True"

text \<open>
  Reading property \<open>k\<close> of a value: an object answers with its own property, every other
  value (a primitive wrapper, an array) has no property of that name and answers
  \<^verbatim>\<open>undefined\<close>, here \<open>None\<close>.
\<close>

fun get_prop :: "'n json \<Rightarrow> string \<Rightarrow> 'n json option" where
  "get_prop (JObj kvs) k = map_of kvs k"
| "get_prop v k = None"

type_synonym byte = "8 word"

section \<open>Readable streams\<close>

text \<open>
  A \<^verbatim>\<open>ReadableStream\<close> is modelled by what successive \<^verbatim>\<open>read()\<close> calls will
  deliver: the chunks still to come, and after them either the end of the stream or a
  stream error. \<open>locked\<close> says that a reader has been acquired; \<open>readers\<close> and \<open>reads\<close>
  count the reader acquisitions and the \<^verbatim>\<open>read()\<close> calls made so far.
\<close>

datatype stream_end = Closed | Errored string

record rstream =
  chunks :: "byte list list"
  ending :: stream_end
  locked :: bool
  readers :: nat
  reads :: nat

text \<open>
  Whatever can be thrown, or a promise be rejected with. A remote operation rejects with
  an arbitrary value; the only thing the program ever looks at is its \<^verbatim>\<open>body\<close>
  property, which is a stream or is missing.
\<close>

datatype thrown =
    TypeError
  | SyntaxError string
  | StreamError string
  | Rejection "rstream option"

fun body :: "thrown \<Rightarrow> rstream option" where
  "body (Rejection b) = b"
| "body e = None"

text \<open>\<^verbatim>\<open>stream.getReader()\<close>: throws on a stream that is already locked.\<close>

definition getReader :: "rstream \<Rightarrow> thrown + rstream" where
  "getReader stream =
     (if locked stream then Inl TypeError
      else Inr (stream\<lparr>locked := True, readers := readers stream + 1\<rparr>))"

text \<open>
  \<^verbatim>\<open>reader.read()\<close>: the next chunk (\<open>Some c\<close>), or \<^verbatim>\<open>value: undefined\<close> at the
  end of the stream (\<open>None\<close>), or a rejection when the stream has failed.
\<close>

definition read :: "rstream \<Rightarrow> (thrown + byte list option) \<times> rstream" where
  "read reader =
     (case chunks reader of
        c # cs \<Rightarrow> (Inr (Some c), reader\<lparr>chunks := cs, reads := reads reader + 1\<rparr>)
      | [] \<Rightarrow>
          (case ending reader of
             Closed \<Rightarrow> (Inr None, reader\<lparr>reads := reads reader + 1\<rparr>)
           | Errored msg \<Rightarrow> (Inl (StreamError msg), reader\<lparr>reads := reads reader + 1\<rparr>)))"

section \<open>The built-in functions the program calls\<close>

text \<open>
  \<^verbatim>\<open>String.prototype.trim\<close>, \<^verbatim>\<open>new TextDecoder().decode\<close> and \<^verbatim>\<open>JSON.parse\<close>
  belong to the host, not to the program: they are parameters. The decoder is total (it
  is not in fatal mode, and a missing argument is the empty input); the parser either
  returns a value or throws.
\<close>

record 'n platform =
  trim :: "string \<Rightarrow> string"
  decode :: "byte list \<Rightarrow> string"
  JSON_parse :: "string \<Rightarrow> thrown + 'n json"

section \<open>read-stream\<close>

text \<open>
  \<^verbatim>\<open>readStream\<close>: one reader, one read, the chunk decoded as text. The second component
  is the stream as the call leaves it.
\<close>

definition readStream :: "('n, 'x) platform_scheme \<Rightarrow> rstream \<Rightarrow> (thrown + string) \<times> rstream" where
  "readStream p stream =
     (case getReader stream of
        Inl e \<Rightarrow> (Inl e, stream)
      | Inr reader \<Rightarrow>
          (case read reader of
             (Inl e, reader') \<Rightarrow> (Inl e, reader')
           | (Inr v, reader') \<Rightarrow>
               (Inr (decode p (case v of None \<Rightarrow> [] | Some c \<Rightarrow> c)), reader')))"

record 'n decoded_body =
  data :: "'n json"
  error :: "thrown option"

text \<open>
  \<^verbatim>\<open>readJsonFromStream\<close>: the text is read outside the \<^verbatim>\<open>try\<close>, so a failure to
  read is thrown on; a failure to parse is caught and returned next to the raw text.
\<close>

definition readJsonFromStream ::
    "('n, 'x) platform_scheme \<Rightarrow> rstream \<Rightarrow> (thrown + 'n decoded_body) \<times> rstream" where
  "readJsonFromStream p stream =
     (case readStream p stream of
        (Inl e, stream') \<Rightarrow> (Inl e, stream')
      | (Inr bodyText, stream') \<Rightarrow>
          (case JSON_parse p bodyText of
             Inr v \<Rightarrow> (Inr \<lparr>data = v, error = None\<rparr>, stream')
           | Inl e \<Rightarrow> (Inr \<lparr>data = JStr bodyText, error = Some e\<rparr>, stream')))"

section \<open>The workplace selector\<close>

record workspace =
  ws_id :: string
  ws_name :: string
  current :: bool
  role :: string
  plan :: string

text \<open>A message is identified by the translation keys it is built from.\<close>

datatype message = T string | Concat message message

datatype notify_type = Success | Error

record notification =
  ntype :: notify_type
  message :: message

datatype request_body = Tenant_id string | Name string | Workspace_id string

text \<open>A remote call that was issued: the operation, its url and its body.\<close>

datatype remote_call =
    SwitchWorkspace string request_body
  | CreateWorkspace string request_body
  | DeleteWorkspace string request_body

record pending =
  pd_id :: string
  pd_name :: string

text \<open>
  What the component needs from outside: the workspace list of the context, the
  location's origin, the base path, and how each remote operation answers a request
  (it resolves, \<open>Inr\<close>, or rejects, \<open>Inl\<close>). \<^verbatim>\<open>createWorkspace\<close> resolves to the id of
  the new workspace.
\<close>

record env =
  workspaces :: "workspace list"
  origin :: string
  basePath :: string
  switchWorkspace :: "string \<Rightarrow> thrown + unit"
  createWorkspace :: "string \<Rightarrow> thrown + string"
  deleteWorkspace :: "string \<Rightarrow> thrown + unit"

text \<open>
  The component's state (the five \<^verbatim>\<open>useState\<close> cells) together with a log of the
  effects it has had on the outside: remote calls issued, notifications emitted and
  urls passed to \<^verbatim>\<open>location.assign\<close>, each in order.
\<close>

record world =
  isCreating :: bool
  newWorkspaceName :: string
  loading :: bool
  isDeleting :: bool
  workspaceToDelete :: "pending option"
  calls :: "remote_call list"
  notifications :: "notification list"
  assigned :: "string list"

definition notify :: "notify_type \<Rightarrow> message \<Rightarrow> world \<Rightarrow> world" where
  "notify ty m w = w\<lparr>notifications := notifications w @ [\<lparr>ntype = ty, message = m\<rparr>]\<rparr>"

definition assign :: "string \<Rightarrow> world \<Rightarrow> world" where
  "assign u w = w\<lparr>assigned := assigned w @ [u]\<rparr>"

definition issue :: "remote_call \<Rightarrow> world \<Rightarrow> world" where
  "issue c w = w\<lparr>calls := calls w @ [c]\<rparr>"

definition currentWorkspace :: "env \<Rightarrow> workspace option" where
  "currentWorkspace e = find current (workspaces e)"

text \<open>
  \<^verbatim>\<open>handleSwitchWorkspace\<close>. \<^verbatim>\<open>currentWorkspace?.id === tenant_id\<close> is false when
  there is no current workspace.
\<close>

definition handleSwitchWorkspace :: "env \<Rightarrow> string \<Rightarrow> world \<Rightarrow> world" where
  "handleSwitchWorkspace e tenant_id w =
     (if (case currentWorkspace e of None \<Rightarrow> False | Some c \<Rightarrow> ws_id c = tenant_id) then w
      else
        let w1 = issue (SwitchWorkspace ''/workspaces/switch'' (Tenant_id tenant_id)) w in
        case switchWorkspace e tenant_id of
          Inr _ \<Rightarrow>
            assign (origin e @ basePath e)
              (notify Success (T ''common.actionMsg.modifiedSuccessfully'') w1)
        | Inl _ \<Rightarrow> notify Error (T ''common.provider.saveFailed'') w1)"

text \<open>
  The \<^verbatim>\<open>catch\<close> block around \<^verbatim>\<open>createWorkspace\<close>. Reading \<^verbatim>\<open>error.body\<close> of a
  value without that property gives \<^verbatim>\<open>undefined\<close>, on which \<^verbatim>\<open>getReader\<close> throws a
  \<^verbatim>\<open>TypeError\<close>. The block ends in \<^verbatim>\<open>return\<close> (\<open>Inr\<close>) unless decoding throws.
\<close>

definition create_rejected ::
    "(('n::zero), 'x) platform_scheme \<Rightarrow> thrown \<Rightarrow> world \<Rightarrow> (thrown + unit) \<times> world" where
  "create_rejected p err w =
     (case (case body err of
              None \<Rightarrow> Inl TypeError
            | Some stream \<Rightarrow> fst (readJsonFromStream p stream)) of
        Inl e \<Rightarrow> (Inl e, w)
      | Inr r \<Rightarrow>
          (Inr (),
           if error r = None then
             let code = get_prop (if truthy (data r) then data r else JObj []) ''code'' in
             if code = Some (JStr ''exceed_max_workspaces'')
             then notify Error (T ''common.actionMsg.createFailedExceed'') w
             else w
           else w))"

text \<open>The body of the outer \<^verbatim>\<open>try\<close> of \<^verbatim>\<open>handleCreateWorkspace\<close>.\<close>

definition create_attempt ::
    "(('n::zero), 'x) platform_scheme \<Rightarrow> env \<Rightarrow> world \<Rightarrow> (thrown + unit) \<times> world" where
  "create_attempt p e w =
     (let w1 = w\<lparr>loading := True\<rparr>;
          name = trim p (newWorkspaceName w);
          w2 = issue (CreateWorkspace ''/workspaces/create'' (Name name)) w1 in
      case createWorkspace e name of
        Inl err \<Rightarrow> create_rejected p err w2
      | Inr new_id \<Rightarrow>
          let w3 = notify Success (T ''common.actionMsg.createdSuccessfully'') w2;
              w4 = issue (SwitchWorkspace ''/workspaces/switch'' (Tenant_id new_id)) w3 in
          (case switchWorkspace e new_id of
             Inl err \<Rightarrow> (Inl err, w4)
           | Inr _ \<Rightarrow> (Inr (), assign (origin e) w4)))"

definition handleCreateWorkspace ::
    "(('n::zero), 'x) platform_scheme \<Rightarrow> env \<Rightarrow> world \<Rightarrow> world" where
  "handleCreateWorkspace p e w =
     (if trim p (newWorkspaceName w) = [] then
        notify Error
          (Concat (T ''common.userProfile.workspace'') (T ''common.actionMsg.nameRequired'')) w
      else
        let w' = (case create_attempt p e w of
                    (Inl _, w1) \<Rightarrow> notify Error (T ''common.actionMsg.createFailed'') w1
                  | (Inr _, w1) \<Rightarrow> w1) in
        w'\<lparr>loading := False, isCreating := False, newWorkspaceName := []\<rparr>)"

definition handleDeleteWorkspace :: "env \<Rightarrow> world \<Rightarrow> world" where
  "handleDeleteWorkspace e w =
     (case workspaceToDelete w of
        None \<Rightarrow> w
      | Some pd \<Rightarrow>
          let w1 = w\<lparr>loading := True\<rparr>;
              w2 = issue (DeleteWorkspace ''/workspaces/delete'' (Workspace_id (pd_id pd))) w1;
              w3 = (case deleteWorkspace e (pd_id pd) of
                      Inr _ \<Rightarrow>
                        assign (origin e)
                          (notify Success (T ''common.actionMsg.deletedSuccessfully'') w2)
                    | Inl _ \<Rightarrow> notify Error (T ''common.actionMsg.deleteFailed'') w2) in
          w3\<lparr>loading := False, isDeleting := False, workspaceToDelete := None\<rparr>)"

definition showDeleteConfirm :: "pending \<Rightarrow> world \<Rightarrow> world" where
  "showDeleteConfirm workspace w = w\<lparr>workspaceToDelete := Some workspace, isDeleting := True\<rparr>"

section \<open>A sample host and sample inputs\<close>

text \<open>
  A concrete host on which the results below are exercised: \<open>trim\<close> strips blanks, the
  decoder reads each byte as one character, and the parser knows a handful of texts and
  rejects every other one.
\<close>

definition sample_trim :: "string \<Rightarrow> string" where
  "sample_trim s =
     rev (dropWhile (\<lambda>c. c = CHR '' '') (rev (dropWhile (\<lambda>c. c = CHR '' '') s)))"

definition sample_decode :: "byte list \<Rightarrow> string" where
  "sample_decode bs = map (\<lambda>b. char_of (unat b)) bs"

definition sample_encode :: "string \<Rightarrow> byte list" where
  "sample_encode s = map (\<lambda>c. of_nat (of_char c)) s"

definition sample_texts :: "(string \<times> int json) list" where
  \<open>sample_texts =
     [(''null'', JNull),
      (''{"code":"exceed_max_workspaces"}'',
         JObj [(''code'', JStr ''exceed_max_workspaces'')]),
      (''{"code":"other_error"}'', JObj [(''code'', JStr ''other_error'')])]\<close>

definition sample_parse :: "string \<Rightarrow> thrown + int json" where
  "sample_parse s =
     (case map_of sample_texts s of Some v \<Rightarrow> Inr v | None \<Rightarrow> Inl (SyntaxError s))"

definition sample_platform :: "int platform" where
  "sample_platform = \<lparr>trim = sample_trim, decode = sample_decode, JSON_parse = sample_parse\<rparr>"

definition sample_stream :: "byte list list \<Rightarrow> rstream" where
  "sample_stream cs = \<lparr>chunks = cs, ending = Closed, locked = False, readers = 0, reads = 0\<rparr>"

definition sample_world :: "string \<Rightarrow> pending option \<Rightarrow> world" where
  "sample_world name pd =
     \<lparr>isCreating = True, newWorkspaceName = name, loading = False, isDeleting = (pd \<noteq> None),
      workspaceToDelete = pd, calls = [], notifications = [], assigned = []\<rparr>"

definition sample_workspaces :: "workspace list" where
  "sample_workspaces =
     [\<lparr>ws_id = ''w1'', ws_name = ''Alpha'', current = False, role = ''owner'', plan = ''sandbox''\<rparr>,
      \<lparr>ws_id = ''w2'', ws_name = ''Beta'', current = True, role = ''owner'', plan = ''sandbox''\<rparr>]"

definition sample_env :: "thrown + string \<Rightarrow> thrown + unit \<Rightarrow> thrown + unit \<Rightarrow> env" where
  "sample_env created switched deleted =
     \<lparr>workspaces = sample_workspaces, origin = ''https://app.example'', basePath = ''/console'',
      switchWorkspace = (\<lambda>_. switched), createWorkspace = (\<lambda>_. created),
      deleteWorkspace = (\<lambda>_. deleted)\<rparr>"

definition sample_exceed_body :: rstream where
  \<open>sample_exceed_body = sample_stream [sample_encode ''{"code":"exceed_max_workspaces"}'']\<close>

definition sample_pending :: pending where
  "sample_pending = \<lparr>pd_id = ''w1'', pd_name = ''Alpha''\<rparr>"

section \<open>Vocabulary of the statements\<close>

fun is_create :: "remote_call \<Rightarrow> bool" where
  "is_create (CreateWorkspace u b) = True"
| "is_create c = False"

text \<open>The notifications an invocation of \<^verbatim>\<open>handleCreateWorkspace\<close> adds to the log.\<close>

definition create_emits :: "(('n::zero), 'x) platform_scheme \<Rightarrow> env \<Rightarrow> world \<Rightarrow> notification list" where
  "create_emits p e w =
     drop (length (notifications w)) (notifications (handleCreateWorkspace p e w))"

definition exceeded_limit :: notification where
  "exceeded_limit = \<lparr>ntype = Error, message = T ''common.actionMsg.createFailedExceed''\<rparr>"

definition create_failed :: notification where
  "create_failed = \<lparr>ntype = Error, message = T ''common.actionMsg.createFailed''\<rparr>"

definition created_successfully :: notification where
  "created_successfully = \<lparr>ntype = Success, message = T ''common.actionMsg.createdSuccessfully''\<rparr>"

definition name_required :: notification where
  "name_required =
     \<lparr>ntype = Error,
      message = Concat (T ''common.userProfile.workspace'') (T ''common.actionMsg.nameRequired'')\<rparr>"

definition deleted_successfully :: notification where
  "deleted_successfully = \<lparr>ntype = Success, message = T ''common.actionMsg.deletedSuccessfully''\<rparr>"

section \<open>The host's JSON and UTF-8 functions\<close>





subsection \<open>Serializing\<close>






subsection \<open>Parsing\<close>
















subsection \<open>UTF-8\<close>







subsection \<open>Values that survive\<close>




subsection \<open>A sample of the host's numbers\<close>








section \<open>Facts about the stream decoder\<close>

lemma get_prop_or_empty: "get_prop (if truthy v then v else JObj []) k = get_prop v k"
  by (cases v) simp_all

lemma readStream_unlocked:
  "\<not> locked stream \<Longrightarrow>
   readStream p stream =
     (case chunks stream of
        c # cs \<Rightarrow>
          (Inr (decode p c),
           stream\<lparr>locked := True, readers := readers stream + 1, chunks := cs,
                  reads := reads stream + 1\<rparr>)
      | [] \<Rightarrow>
          (case ending stream of
             Closed \<Rightarrow>
               (Inr (decode p []),
                stream\<lparr>locked := True, readers := readers stream + 1,
                       reads := reads stream + 1\<rparr>)
           | Errored msg \<Rightarrow>
               (Inl (StreamError msg),
                stream\<lparr>locked := True, readers := readers stream + 1,
                       reads := reads stream + 1\<rparr>)))"
  by (simp add: readStream_def getReader_def read_def split: list.split stream_end.split)

lemma readStream_locked: "locked stream \<Longrightarrow> readStream p stream = (Inl TypeError, stream)"
  by (simp add: readStream_def getReader_def)

lemma readJsonFromStream_text:
  "fst (readStream p stream) = Inr s \<Longrightarrow>
   fst (readJsonFromStream p stream) =
     (case JSON_parse p s of
        Inr v \<Rightarrow> Inr \<lparr>data = v, error = None\<rparr>
      | Inl e \<Rightarrow> Inr \<lparr>data = JStr s, error = Some e\<rparr>)"
  by (cases "readStream p stream") (simp add: readJsonFromStream_def split: sum.split)

lemma readJsonFromStream_thrown:
  "fst (readStream p stream) = Inl e \<Longrightarrow> fst (readJsonFromStream p stream) = Inl e"
  by (cases "readStream p stream") (simp add: readJsonFromStream_def)

lemma readJsonFromStream_snd: "snd (readJsonFromStream p stream) = snd (readStream p stream)"
  by (cases "readStream p stream") (simp add: readJsonFromStream_def split: sum.split)

lemma sample_decode_oops: "sample_decode (sample_encode ''oops'') = ''oops''"
  by (simp add: sample_decode_def sample_encode_def char_of_def bit_0)

lemma sample_decode_exceed:
  \<open>sample_decode (sample_encode ''{"code":"exceed_max_workspaces"}'') =
     ''{"code":"exceed_max_workspaces"}''\<close>
  by (simp add: sample_decode_def sample_encode_def char_of_def bit_0)

text \<open>
  C2. When the text read from the stream is \<open>s\<close> and the parser rejects \<open>s\<close> with \<open>e\<close>,
  \<^verbatim>\<open>readJsonFromStream\<close> returns (it does not throw) the raw text as \<open>data\<close> together
  with the parser's error, which is not \<^verbatim>\<open>null\<close>.
\<close>

theorem readJsonFromStream_not_json:
  assumes "fst (readStream p stream) = Inr s"
    and "JSON_parse p s = Inl e"
  shows "fst (readJsonFromStream p stream) = Inr \<lparr>data = JStr s, error = Some e\<rparr>"
  using assms by (simp add: readJsonFromStream_text)

theorem readJsonFromStream_not_json_witness:
  "fst (readStream sample_platform (sample_stream [sample_encode ''oops''])) = Inr ''oops'' \<and>
   JSON_parse sample_platform ''oops'' = Inl (SyntaxError ''oops'') \<and>
   fst (readJsonFromStream sample_platform (sample_stream [sample_encode ''oops''])) =
     Inr \<lparr>data = JStr ''oops'', error = Some (SyntaxError ''oops'')\<rparr>"
proof -
  let ?s = "sample_stream [sample_encode ''oops'']"
  have 1: "fst (readStream sample_platform ?s) = Inr ''oops''"
    by (simp add: readStream_unlocked sample_stream_def sample_platform_def sample_decode_oops)
  have 2: "JSON_parse sample_platform ''oops'' = Inl (SyntaxError ''oops'')"
    by (simp add: sample_platform_def sample_parse_def sample_texts_def)
  from 1 2 readJsonFromStream_not_json [OF 1 2] show ?thesis by simp
qed

lemma sample_decode_other:
  \<open>sample_decode (sample_encode ''{"code":"other_error"}'') = ''{"code":"other_error"}''\<close>
  by (simp add: sample_decode_def sample_encode_def char_of_def bit_0)

lemma sample_decode_cut:
  \<open>sample_decode (sample_encode ''{"code":'') = ''{"code":''\<close>
  by (simp add: sample_decode_def sample_encode_def char_of_def bit_0)

text \<open>
  C9, as stated, fails on a stream that is already locked: \<^verbatim>\<open>getReader\<close> throws, so
  no reader is acquired, no \<^verbatim>\<open>read()\<close> call is made and no chunk is taken.
\<close>

theorem readJsonFromStream_locked_counterexample:
  "fst (readJsonFromStream sample_platform
          ((sample_stream [sample_encode ''null''])\<lparr>locked := True\<rparr>)) = Inl TypeError \<and>
   readers (snd (readJsonFromStream sample_platform
          ((sample_stream [sample_encode ''null''])\<lparr>locked := True\<rparr>))) = 0 \<and>
   reads (snd (readJsonFromStream sample_platform
          ((sample_stream [sample_encode ''null''])\<lparr>locked := True\<rparr>))) = 0 \<and>
   chunks (snd (readJsonFromStream sample_platform
          ((sample_stream [sample_encode ''null''])\<lparr>locked := True\<rparr>))) =
     [sample_encode ''null'']"
  by (simp add: readJsonFromStream_def readStream_locked sample_stream_def)

text \<open>
  C9, amended. On a stream that is already locked \<^verbatim>\<open>readJsonFromStream\<close> throws and
  leaves the stream as it is. On every other stream it acquires exactly one reader and
  makes exactly one \<^verbatim>\<open>read()\<close> call. When such a stream delivers \<open>c\<close> and then further
  chunks \<open>cs\<close>, the text that is decoded and parsed is that of \<open>c\<close> alone: the result is
  the parse of the decoded \<open>c\<close> (or that text with the parse error), it is the result for
  the stream that delivers \<open>c\<close> only, and \<open>cs\<close> is left unread. On no stream are there
  more than one reader, more than one \<^verbatim>\<open>read()\<close> call or more than one chunk taken.
\<close>

theorem readJsonFromStream_single_read:
  "readers (snd (readJsonFromStream p stream)) \<le> readers stream + 1 \<and>
   reads (snd (readJsonFromStream p stream)) \<le> reads stream + 1 \<and>
   (chunks (snd (readJsonFromStream p stream)) = chunks stream \<or>
    chunks (snd (readJsonFromStream p stream)) = tl (chunks stream)) \<and>
   (locked stream \<longrightarrow> readJsonFromStream p stream = (Inl TypeError, stream)) \<and>
   (\<not> locked stream \<longrightarrow>
      readers (snd (readJsonFromStream p stream)) = readers stream + 1 \<and>
      reads (snd (readJsonFromStream p stream)) = reads stream + 1 \<and>
      chunks (snd (readJsonFromStream p stream)) = tl (chunks stream) \<and>
      (\<forall>c cs. chunks stream = c # cs \<longrightarrow>
         fst (readStream p stream) = Inr (decode p c) \<and>
         fst (readJsonFromStream p stream) =
           (case JSON_parse p (decode p c) of
              Inr v \<Rightarrow> Inr \<lparr>data = v, error = None\<rparr>
            | Inl e \<Rightarrow> Inr \<lparr>data = JStr (decode p c), error = Some e\<rparr>) \<and>
         fst (readJsonFromStream p stream) =
           fst (readJsonFromStream p (stream\<lparr>chunks := [c]\<rparr>)) \<and>
         chunks (snd (readJsonFromStream p stream)) = cs))"
proof -
  have counts: "readers (snd (readStream p stream)) = readers stream + 1 \<and>
      reads (snd (readStream p stream)) = reads stream + 1 \<and>
      chunks (snd (readStream p stream)) = tl (chunks stream)"
    if "\<not> locked stream"
    using that by (simp add: readStream_unlocked split: list.split stream_end.split)
  have first: "fst (readStream p stream) = Inr (decode p c) \<and>
      fst (readJsonFromStream p stream) =
        (case JSON_parse p (decode p c) of
           Inr v \<Rightarrow> Inr \<lparr>data = v, error = None\<rparr>
         | Inl e \<Rightarrow> Inr \<lparr>data = JStr (decode p c), error = Some e\<rparr>) \<and>
      fst (readJsonFromStream p stream) = fst (readJsonFromStream p (stream\<lparr>chunks := [c]\<rparr>)) \<and>
      chunks (snd (readJsonFromStream p stream)) = cs"
    if "\<not> locked stream" and "chunks stream = c # cs" for c cs
  proof -
    have a: "fst (readStream p stream) = Inr (decode p c)"
      using that by (simp add: readStream_unlocked)
    have b: "fst (readStream p (stream\<lparr>chunks := [c]\<rparr>)) = Inr (decode p c)"
      using that by (simp add: readStream_unlocked)
    have "chunks (snd (readStream p stream)) = cs"
      using that by (simp add: readStream_unlocked)
    with a b show ?thesis
      by (simp add: readJsonFromStream_text readJsonFromStream_snd)
  qed
  show ?thesis
  proof (cases "locked stream")
    case True
    then show ?thesis
      by (simp add: readJsonFromStream_def readStream_locked)
  next
    case False
    have A: "readers (snd (readJsonFromStream p stream)) = readers stream + 1 \<and>
        reads (snd (readJsonFromStream p stream)) = reads stream + 1 \<and>
        chunks (snd (readJsonFromStream p stream)) = tl (chunks stream)"
      using counts [OF False] by (simp add: readJsonFromStream_snd)
    have B: "\<forall>c cs. chunks stream = c # cs \<longrightarrow>
         fst (readStream p stream) = Inr (decode p c) \<and>
         fst (readJsonFromStream p stream) =
           (case JSON_parse p (decode p c) of
              Inr v \<Rightarrow> Inr \<lparr>data = v, error = None\<rparr>
            | Inl e \<Rightarrow> Inr \<lparr>data = JStr (decode p c), error = Some e\<rparr>) \<and>
         fst (readJsonFromStream p stream) =
           fst (readJsonFromStream p (stream\<lparr>chunks := [c]\<rparr>)) \<and>
         chunks (snd (readJsonFromStream p stream)) = cs"
      using first [OF False] by blast
    show ?thesis
    proof (intro conjI impI)
      show "readers (snd (readJsonFromStream p stream)) \<le> readers stream + 1"
        and "reads (snd (readJsonFromStream p stream)) \<le> reads stream + 1"
        and "chunks (snd (readJsonFromStream p stream)) = chunks stream \<or>
          chunks (snd (readJsonFromStream p stream)) = tl (chunks stream)"
        using A by simp_all
    qed (use A B False in blast)+
  qed
qed

theorem readJsonFromStream_single_read_witness:
  \<open>\<not> locked (sample_stream [sample_encode ''{"code":"other_error"}'', sample_encode ''oops'']) \<and>
   readers (snd (readJsonFromStream sample_platform
            (sample_stream [sample_encode ''{"code":"other_error"}'', sample_encode ''oops'']))) = 1 \<and>
   reads (snd (readJsonFromStream sample_platform
            (sample_stream [sample_encode ''{"code":"other_error"}'', sample_encode ''oops'']))) = 1 \<and>
   fst (readJsonFromStream sample_platform
          (sample_stream [sample_encode ''{"code":"other_error"}'', sample_encode ''oops''])) =
     Inr \<lparr>data = JObj [(''code'', JStr ''other_error'')], error = None\<rparr> \<and>
   chunks (snd (readJsonFromStream sample_platform
            (sample_stream [sample_encode ''{"code":"other_error"}'', sample_encode ''oops'']))) =
     [sample_encode ''oops''] \<and>
   fst (readJsonFromStream sample_platform
          (sample_stream [sample_encode ''{"code":'', sample_encode ''"other_error"}''])) =
     Inr \<lparr>data = JStr ''{"code":'', error = Some (SyntaxError ''{"code":'')\<rparr> \<and>
   chunks (snd (readJsonFromStream sample_platform
            (sample_stream [sample_encode ''{"code":'', sample_encode ''"other_error"}'']))) =
     [sample_encode ''"other_error"}'']\<close>
proof -
  let ?a = \<open>sample_stream [sample_encode ''{"code":"other_error"}'', sample_encode ''oops'']\<close>
  let ?b = \<open>sample_stream [sample_encode ''{"code":'', sample_encode ''"other_error"}'']\<close>
  have a: "\<not> locked ?a \<and> readers ?a = 0 \<and> reads ?a = 0"
    and b: "\<not> locked ?b"
    by (simp_all add: sample_stream_def)
  have ca: \<open>chunks ?a = [sample_encode ''{"code":"other_error"}'', sample_encode ''oops'']\<close>
    and cb: \<open>chunks ?b = [sample_encode ''{"code":'', sample_encode ''"other_error"}'']\<close>
    by (simp_all add: sample_stream_def)
  have pa: \<open>JSON_parse sample_platform (decode sample_platform (sample_encode ''{"code":"other_error"}'')) =
      Inr (JObj [(''code'', JStr ''other_error'')])\<close>
    by (simp add: sample_platform_def sample_decode_other sample_parse_def sample_texts_def)
  have pb: \<open>decode sample_platform (sample_encode ''{"code":'') = ''{"code":'' \<and>
      JSON_parse sample_platform ''{"code":'' = Inl (SyntaxError ''{"code":'')\<close>
    by (simp add: sample_platform_def sample_decode_cut sample_parse_def sample_texts_def)
  note ta = readJsonFromStream_single_read [of sample_platform ?a, THEN conjunct2, THEN conjunct2,
      THEN conjunct2, THEN conjunct2, rule_format, OF a [THEN conjunct1]]
  note tb = readJsonFromStream_single_read [of sample_platform ?b, THEN conjunct2, THEN conjunct2,
      THEN conjunct2, THEN conjunct2, rule_format, OF b]
  have ra: \<open>readers (snd (readJsonFromStream sample_platform ?a)) = 1 \<and>
      reads (snd (readJsonFromStream sample_platform ?a)) = 1 \<and>
      fst (readJsonFromStream sample_platform ?a) =
        Inr \<lparr>data = JObj [(''code'', JStr ''other_error'')], error = None\<rparr> \<and>
      chunks (snd (readJsonFromStream sample_platform ?a)) = [sample_encode ''oops'']\<close>
    using ta [THEN conjunct1] ta [THEN conjunct2, THEN conjunct1]
      ta [THEN conjunct2, THEN conjunct2, THEN conjunct2, rule_format, OF ca] a pa
    by simp
  have rb: \<open>fst (readJsonFromStream sample_platform ?b) =
        Inr \<lparr>data = JStr ''{"code":'', error = Some (SyntaxError ''{"code":'')\<rparr> \<and>
      chunks (snd (readJsonFromStream sample_platform ?b)) = [sample_encode ''"other_error"}'']\<close>
    using tb [THEN conjunct2, THEN conjunct2, THEN conjunct2, rule_format, OF cb] pb
    by simp
  from a ra rb show ?thesis
    by simp
qed

section \<open>Facts about the host's JSON and UTF-8 functions\<close>

































section \<open>Facts about the workplace selector\<close>

lemma find_unique_id:
  assumes "c \<in> set ws" and "P c" and "\<forall>x\<in>set ws. P x \<longrightarrow> f x = f c"
  shows "\<exists>d. find P ws = Some d \<and> f d = f c"
  using assms
proof (induction ws)
  case Nil
  then show ?case by simp
next
  case (Cons a ws)
  show ?case
  proof (cases "P a")
    case True
    with Cons.prems(3) show ?thesis by simp
  next
    case False
    with Cons.prems have "c \<in> set ws" and "\<forall>x\<in>set ws. P x \<longrightarrow> f x = f c"
      by auto
    with Cons.IH [OF _ \<open>P c\<close>] False show ?thesis by simp
  qed
qed

text \<open>The four ways an invocation with a non-empty trimmed name can go.\<close>

lemma create_created_switched:
  assumes "trim p (newWorkspaceName w) \<noteq> []"
    and "createWorkspace e (trim p (newWorkspaceName w)) = Inr new_id"
    and "switchWorkspace e new_id = Inr u"
  shows "handleCreateWorkspace p e w =
     w\<lparr>loading := False, isCreating := False, newWorkspaceName := [],
       calls := calls w @
         [CreateWorkspace ''/workspaces/create'' (Name (trim p (newWorkspaceName w))),
          SwitchWorkspace ''/workspaces/switch'' (Tenant_id new_id)],
       notifications := notifications w @ [created_successfully],
       assigned := assigned w @ [origin e]\<rparr>"
  using assms
  by (simp add: handleCreateWorkspace_def create_attempt_def notify_def issue_def assign_def
      created_successfully_def Let_def)

lemma create_created_switch_rejected:
  assumes "trim p (newWorkspaceName w) \<noteq> []"
    and "createWorkspace e (trim p (newWorkspaceName w)) = Inr new_id"
    and "switchWorkspace e new_id = Inl err"
  shows "handleCreateWorkspace p e w =
     w\<lparr>loading := False, isCreating := False, newWorkspaceName := [],
       calls := calls w @
         [CreateWorkspace ''/workspaces/create'' (Name (trim p (newWorkspaceName w))),
          SwitchWorkspace ''/workspaces/switch'' (Tenant_id new_id)],
       notifications := notifications w @ [created_successfully, create_failed]\<rparr>"
  using assms
  by (simp add: handleCreateWorkspace_def create_attempt_def notify_def issue_def
      created_successfully_def create_failed_def Let_def)

lemma create_rejected_decoded:
  assumes "trim p (newWorkspaceName w) \<noteq> []"
    and "createWorkspace e (trim p (newWorkspaceName w)) = Inl err"
    and "body err = Some stream"
    and "fst (readJsonFromStream p stream) = Inr r"
  shows "handleCreateWorkspace p e w =
     w\<lparr>loading := False, isCreating := False, newWorkspaceName := [],
       calls := calls w @
         [CreateWorkspace ''/workspaces/create'' (Name (trim p (newWorkspaceName w)))],
       notifications := notifications w @
         (if error r = None \<and> get_prop (data r) ''code'' = Some (JStr ''exceed_max_workspaces'')
          then [exceeded_limit] else [])\<rparr>"
  using assms
  by (simp add: handleCreateWorkspace_def create_attempt_def create_rejected_def notify_def
      issue_def exceeded_limit_def get_prop_or_empty Let_def)

lemma create_rejected_decode_thrown:
  assumes "trim p (newWorkspaceName w) \<noteq> []"
    and "createWorkspace e (trim p (newWorkspaceName w)) = Inl err"
    and "body err = None \<or> (\<exists>stream x. body err = Some stream \<and>
           fst (readJsonFromStream p stream) = Inl x)"
  shows "handleCreateWorkspace p e w =
     w\<lparr>loading := False, isCreating := False, newWorkspaceName := [],
       calls := calls w @
         [CreateWorkspace ''/workspaces/create'' (Name (trim p (newWorkspaceName w)))],
       notifications := notifications w @ [create_failed]\<rparr>"
  using assms
  by (auto simp add: handleCreateWorkspace_def create_attempt_def create_rejected_def notify_def
      issue_def create_failed_def Let_def)

lemma create_outcomes:
  obtains (created_switched) new_id u where
      "createWorkspace e n = Inr new_id" and "switchWorkspace e new_id = Inr u"
  | (created_switch_rejected) new_id err where
      "createWorkspace e n = Inr new_id" and "switchWorkspace e new_id = Inl err"
  | (rejected_decoded) err stream r where
      "createWorkspace e n = Inl err" and "body err = Some stream"
      and "fst (readJsonFromStream p stream) = Inr r"
  | (rejected_decode_thrown) err where
      "createWorkspace e n = Inl err"
      and "body err = None \<or> (\<exists>stream x. body err = Some stream \<and>
             fst (readJsonFromStream p stream) = Inl x)"
proof (cases "createWorkspace e n")
  case (Inr new_id)
  then show ?thesis
    by (cases "switchWorkspace e new_id") (auto intro: created_switched created_switch_rejected)
next
  case (Inl err)
  show ?thesis
  proof (cases "body err")
    case None
    with Inl show ?thesis by (auto intro: rejected_decode_thrown)
  next
    case (Some stream)
    with Inl show ?thesis
      by (cases "fst (readJsonFromStream p stream)")
        (auto intro: rejected_decoded rejected_decode_thrown)
  qed
qed

text \<open>The invocation only ever appends to the notification log.\<close>

lemma create_appends:
  "notifications (handleCreateWorkspace p e w) = notifications w @ create_emits p e w"
proof (cases "trim p (newWorkspaceName w) = []")
  case True
  then show ?thesis
    by (simp add: create_emits_def handleCreateWorkspace_def notify_def)
next
  case False
  show ?thesis
  proof (cases rule: create_outcomes [where e = e and n = "trim p (newWorkspaceName w)" and p = p])
    case (created_switched new_id u)
    with False show ?thesis by (simp add: create_emits_def create_created_switched)
  next
    case (created_switch_rejected new_id err)
    with False show ?thesis by (simp add: create_emits_def create_created_switch_rejected)
  next
    case (rejected_decoded err stream r)
    with False show ?thesis by (simp add: create_emits_def create_rejected_decoded)
  next
    case (rejected_decode_thrown err)
    with False show ?thesis by (simp add: create_emits_def create_rejected_decode_thrown)
  qed
qed

text \<open>
  C3. When a workspace of the list is current (and, as the data model requires, no
  workspace with another id is current as well), \<^verbatim>\<open>handleSwitchWorkspace\<close> called with
  its id changes nothing: no remote call, no notification, no navigation.
\<close>

theorem switch_to_current_is_noop:
  assumes "c \<in> set (workspaces e)"
    and "current c"
    and "\<forall>x\<in>set (workspaces e). current x \<longrightarrow> ws_id x = ws_id c"
  shows "handleSwitchWorkspace e (ws_id c) w = w"
proof -
  obtain d where "find current (workspaces e) = Some d" and "ws_id d = ws_id c"
    using find_unique_id [OF assms] by blast
  then show ?thesis
    by (simp add: handleSwitchWorkspace_def currentWorkspace_def)
qed

theorem switch_to_current_is_noop_witness:
  "handleSwitchWorkspace (sample_env (Inr ''w3'') (Inr ()) (Inr ())) ''w2'' (sample_world [] None) =
     sample_world [] None"
proof -
  let ?e = "sample_env (Inr ''w3'') (Inr ()) (Inr ())"
  let ?c = "\<lparr>ws_id = ''w2'', ws_name = ''Beta'', current = True, role = ''owner'',
             plan = ''sandbox''\<rparr>"
  have 1: "?c \<in> set (workspaces ?e)"
    by (simp add: sample_env_def sample_workspaces_def)
  have 2: "current ?c"
    by simp
  have 3: "\<forall>x\<in>set (workspaces ?e). current x \<longrightarrow> ws_id x = ws_id ?c"
    by (simp add: sample_env_def sample_workspaces_def)
  have 4: "ws_id ?c = ''w2''"
    by simp
  show ?thesis
    using switch_to_current_is_noop [OF 1 2 3, of "sample_world [] None"] unfolding 4 .
qed

text \<open>
  C4. Let the trimmed name be non-empty. When \<^verbatim>\<open>createWorkspace\<close> rejects and decoding
  the error body returns \<open>r\<close>, the invocation emits the "exceeded limit" error, once, if
  \<open>r\<close> has no parse error and its data carries the code \<^verbatim>\<open>exceed_max_workspaces\<close>, and
  emits nothing otherwise. When decoding throws instead (there is no body to read, or
  reading it fails), it emits the generic "create failed" error, once. On no outcome at
  all does one invocation emit both.
\<close>

theorem create_failure_notifications:
  assumes "trim p (newWorkspaceName w) \<noteq> []"
  shows "(\<forall>err stream r.
            createWorkspace e (trim p (newWorkspaceName w)) = Inl err \<and>
            body err = Some stream \<and> fst (readJsonFromStream p stream) = Inr r \<longrightarrow>
            create_emits p e w =
              (if error r = None \<and>
                  get_prop (data r) ''code'' = Some (JStr ''exceed_max_workspaces'')
               then [exceeded_limit] else [])) \<and>
         (\<forall>err.
            createWorkspace e (trim p (newWorkspaceName w)) = Inl err \<and>
            (body err = None \<or>
             (\<exists>stream x. body err = Some stream \<and> fst (readJsonFromStream p stream) = Inl x)) \<longrightarrow>
            create_emits p e w = [create_failed]) \<and>
         \<not> (exceeded_limit \<in> set (create_emits p e w) \<and> create_failed \<in> set (create_emits p e w))"
proof (intro conjI allI impI)
  fix err stream r
  assume "createWorkspace e (trim p (newWorkspaceName w)) = Inl err \<and>
    body err = Some stream \<and> fst (readJsonFromStream p stream) = Inr r"
  then show "create_emits p e w =
      (if error r = None \<and> get_prop (data r) ''code'' = Some (JStr ''exceed_max_workspaces'')
       then [exceeded_limit] else [])"
    using assms by (simp add: create_emits_def create_rejected_decoded)
next
  fix err
  assume "createWorkspace e (trim p (newWorkspaceName w)) = Inl err \<and>
    (body err = None \<or>
     (\<exists>stream x. body err = Some stream \<and> fst (readJsonFromStream p stream) = Inl x))"
  then show "create_emits p e w = [create_failed]"
    using assms by (simp add: create_emits_def create_rejected_decode_thrown)
next
  show "\<not> (exceeded_limit \<in> set (create_emits p e w) \<and>
            create_failed \<in> set (create_emits p e w))"
  proof (cases rule: create_outcomes [where e = e and n = "trim p (newWorkspaceName w)" and p = p])
    case (created_switched new_id u)
    with assms show ?thesis
      by (simp add: create_emits_def create_created_switched exceeded_limit_def
          created_successfully_def)
  next
    case (created_switch_rejected new_id err)
    with assms show ?thesis
      by (simp add: create_emits_def create_created_switch_rejected exceeded_limit_def
          created_successfully_def create_failed_def)
  next
    case (rejected_decoded err stream r)
    with assms show ?thesis
      by (simp add: create_emits_def create_rejected_decoded exceeded_limit_def
          create_failed_def)
  next
    case (rejected_decode_thrown err)
    with assms show ?thesis
      by (simp add: create_emits_def create_rejected_decode_thrown exceeded_limit_def
          create_failed_def)
  qed
qed

theorem create_failure_notifications_witness:
  "trim sample_platform (newWorkspaceName (sample_world '' Team '' None)) \<noteq> [] \<and>
   create_emits sample_platform
     (sample_env (Inl (Rejection (Some sample_exceed_body))) (Inr ()) (Inr ()))
     (sample_world '' Team '' None) = [exceeded_limit] \<and>
   create_emits sample_platform
     (sample_env (Inl (Rejection None)) (Inr ()) (Inr ()))
     (sample_world '' Team '' None) = [create_failed]"
proof -
  let ?w = "sample_world '' Team '' None"
  let ?r = "\<lparr>data = JObj [(''code'', JStr ''exceed_max_workspaces'')], error = None\<rparr>
              :: int decoded_body"
  let ?e1 = "sample_env (Inl (Rejection (Some sample_exceed_body))) (Inr ()) (Inr ())"
  let ?e2 = "sample_env (Inl (Rejection None)) (Inr ()) (Inr ())"
  have name: "trim sample_platform (newWorkspaceName ?w) = ''Team''"
    by (simp add: sample_platform_def sample_world_def sample_trim_def)
  then have 1: "trim sample_platform (newWorkspaceName ?w) \<noteq> []"
    by simp
  have 2: "createWorkspace ?e1 (trim sample_platform (newWorkspaceName ?w)) =
      Inl (Rejection (Some sample_exceed_body))"
    by (simp add: sample_env_def)
  have 3: "fst (readJsonFromStream sample_platform sample_exceed_body) = Inr ?r"
    by (simp add: readJsonFromStream_text readStream_unlocked sample_exceed_body_def
        sample_stream_def sample_platform_def sample_decode_exceed sample_parse_def
        sample_texts_def)
  have 4: "createWorkspace ?e2 (trim sample_platform (newWorkspaceName ?w)) =
      Inl (Rejection None)"
    by (simp add: sample_env_def)
  have "create_emits sample_platform ?e1 ?w = [exceeded_limit]"
    using create_failure_notifications [OF 1, of ?e1, THEN conjunct1, rule_format,
        of "Rejection (Some sample_exceed_body)" sample_exceed_body ?r] 2 3
    by simp
  moreover have "create_emits sample_platform ?e2 ?w = [create_failed]"
    using create_failure_notifications [OF 1, of ?e2, THEN conjunct2, THEN conjunct1,
        rule_format, of "Rejection None"] 4
    by simp
  ultimately show ?thesis
    using 1 by simp
qed

text \<open>
  C5. With an empty trimmed name, \<^verbatim>\<open>handleCreateWorkspace\<close> issues no remote call and
  emits the one validation error (and nothing else changes). With a non-empty trimmed
  name it issues exactly one create call, whose body is the trimmed name.
\<close>

theorem create_validation:
  "(trim p (newWorkspaceName w) = [] \<longrightarrow>
      calls (handleCreateWorkspace p e w) = calls w \<and>
      notifications (handleCreateWorkspace p e w) = notifications w @ [name_required] \<and>
      handleCreateWorkspace p e w = w\<lparr>notifications := notifications w @ [name_required]\<rparr>) \<and>
   (trim p (newWorkspaceName w) \<noteq> [] \<longrightarrow>
      filter is_create (calls (handleCreateWorkspace p e w)) =
        filter is_create (calls w) @
          [CreateWorkspace ''/workspaces/create'' (Name (trim p (newWorkspaceName w)))])"
proof (intro conjI impI)
  assume "trim p (newWorkspaceName w) = []"
  then show "handleCreateWorkspace p e w = w\<lparr>notifications := notifications w @ [name_required]\<rparr>"
    by (simp add: handleCreateWorkspace_def notify_def name_required_def)
  then show "calls (handleCreateWorkspace p e w) = calls w"
    and "notifications (handleCreateWorkspace p e w) = notifications w @ [name_required]"
    by simp_all
next
  assume name: "trim p (newWorkspaceName w) \<noteq> []"
  show "filter is_create (calls (handleCreateWorkspace p e w)) =
      filter is_create (calls w) @
        [CreateWorkspace ''/workspaces/create'' (Name (trim p (newWorkspaceName w)))]"
  proof (cases rule: create_outcomes [where e = e and n = "trim p (newWorkspaceName w)" and p = p])
    case (created_switched new_id u)
    with name show ?thesis by (simp add: create_created_switched)
  next
    case (created_switch_rejected new_id err)
    with name show ?thesis by (simp add: create_created_switch_rejected)
  next
    case (rejected_decoded err stream r)
    with name show ?thesis by (simp add: create_rejected_decoded)
  next
    case (rejected_decode_thrown err)
    with name show ?thesis by (simp add: create_rejected_decode_thrown)
  qed
qed

theorem create_validation_witness:
  "trim sample_platform (newWorkspaceName (sample_world ''   '' None)) = [] \<and>
   calls (handleCreateWorkspace sample_platform (sample_env (Inr ''w3'') (Inr ()) (Inr ()))
            (sample_world ''   '' None)) = [] \<and>
   notifications (handleCreateWorkspace sample_platform (sample_env (Inr ''w3'') (Inr ()) (Inr ()))
            (sample_world ''   '' None)) = [name_required] \<and>
   trim sample_platform (newWorkspaceName (sample_world '' Team '' None)) \<noteq> [] \<and>
   filter is_create
     (calls (handleCreateWorkspace sample_platform (sample_env (Inr ''w3'') (Inr ()) (Inr ()))
               (sample_world '' Team '' None))) =
     [CreateWorkspace ''/workspaces/create'' (Name ''Team'')]"
proof -
  let ?e = "sample_env (Inr ''w3'') (Inr ()) (Inr ())"
  let ?blank = "sample_world ''   '' None"
  let ?team = "sample_world '' Team '' None"
  have 1: "trim sample_platform (newWorkspaceName ?blank) = []"
    by (simp add: sample_platform_def sample_world_def sample_trim_def)
  have 2: "trim sample_platform (newWorkspaceName ?team) = ''Team''"
    by (simp add: sample_platform_def sample_world_def sample_trim_def)
  have 3: "calls ?blank = [] \<and> notifications ?blank = [] \<and> calls ?team = []"
    by (simp add: sample_world_def)
  have "calls (handleCreateWorkspace sample_platform ?e ?blank) = [] \<and>
      notifications (handleCreateWorkspace sample_platform ?e ?blank) = [name_required]"
    using create_validation [of sample_platform ?blank ?e] 1 3 by simp
  moreover have "filter is_create (calls (handleCreateWorkspace sample_platform ?e ?team)) =
      [CreateWorkspace ''/workspaces/create'' (Name ''Team'')]"
    using create_validation [of sample_platform ?team ?e] 2 3 by simp
  ultimately show ?thesis
    using 1 2 by simp
qed

text \<open>
  C6. With a non-empty trimmed name, every way \<^verbatim>\<open>handleCreateWorkspace\<close> can go ends
  with \<open>loading\<close> false, the creation modal closed and the draft name empty.
\<close>

theorem create_always_resets:
  assumes "trim p (newWorkspaceName w) \<noteq> []"
  shows "\<not> loading (handleCreateWorkspace p e w) \<and>
         \<not> isCreating (handleCreateWorkspace p e w) \<and>
         newWorkspaceName (handleCreateWorkspace p e w) = []"
  using assms by (simp add: handleCreateWorkspace_def Let_def)

theorem create_always_resets_witness:
  "trim sample_platform (newWorkspaceName (sample_world '' Team '' None)) \<noteq> [] \<and>
   \<not> loading (handleCreateWorkspace sample_platform
       (sample_env (Inl (Rejection (Some sample_exceed_body))) (Inr ()) (Inr ()))
       (sample_world '' Team '' None)) \<and>
   \<not> isCreating (handleCreateWorkspace sample_platform
       (sample_env (Inl (Rejection (Some sample_exceed_body))) (Inr ()) (Inr ()))
       (sample_world '' Team '' None)) \<and>
   newWorkspaceName (handleCreateWorkspace sample_platform
       (sample_env (Inl (Rejection (Some sample_exceed_body))) (Inr ()) (Inr ()))
       (sample_world '' Team '' None)) = []"
proof -
  have 1: "trim sample_platform (newWorkspaceName (sample_world '' Team '' None)) \<noteq> []"
    by (simp add: sample_platform_def sample_world_def sample_trim_def)
  from 1 create_always_resets [OF 1] show ?thesis
    by simp
qed

text \<open>
  C7. A switch that succeeds navigates to the origin followed by the base path; a create
  that succeeds (the workspace is created and the switch to it succeeds) and a delete
  that succeeds navigate to the origin alone.
\<close>

theorem navigation_asymmetry:
  "(\<forall>u. currentWorkspace e = None \<or> (\<exists>c. currentWorkspace e = Some c \<and> ws_id c \<noteq> tenant_id) \<longrightarrow>
        switchWorkspace e tenant_id = Inr u \<longrightarrow>
        assigned (handleSwitchWorkspace e tenant_id w) = assigned w @ [origin e @ basePath e]) \<and>
   (\<forall>new_id u. trim p (newWorkspaceName w) \<noteq> [] \<longrightarrow>
        createWorkspace e (trim p (newWorkspaceName w)) = Inr new_id \<longrightarrow>
        switchWorkspace e new_id = Inr u \<longrightarrow>
        assigned (handleCreateWorkspace p e w) = assigned w @ [origin e]) \<and>
   (\<forall>pd u. workspaceToDelete w = Some pd \<longrightarrow>
        deleteWorkspace e (pd_id pd) = Inr u \<longrightarrow>
        assigned (handleDeleteWorkspace e w) = assigned w @ [origin e])"
proof (intro conjI allI impI)
  fix u
  assume "currentWorkspace e = None \<or> (\<exists>c. currentWorkspace e = Some c \<and> ws_id c \<noteq> tenant_id)"
    and "switchWorkspace e tenant_id = Inr u"
  then show "assigned (handleSwitchWorkspace e tenant_id w) = assigned w @ [origin e @ basePath e]"
    by (auto simp add: handleSwitchWorkspace_def assign_def notify_def issue_def Let_def)
next
  fix new_id u
  assume "trim p (newWorkspaceName w) \<noteq> []"
    and "createWorkspace e (trim p (newWorkspaceName w)) = Inr new_id"
    and "switchWorkspace e new_id = Inr u"
  then show "assigned (handleCreateWorkspace p e w) = assigned w @ [origin e]"
    by (simp add: create_created_switched)
next
  fix pd u
  assume "workspaceToDelete w = Some pd" and "deleteWorkspace e (pd_id pd) = Inr u"
  then show "assigned (handleDeleteWorkspace e w) = assigned w @ [origin e]"
    by (simp add: handleDeleteWorkspace_def assign_def notify_def issue_def Let_def)
qed

theorem navigation_asymmetry_witness:
  "assigned (handleSwitchWorkspace (sample_env (Inr ''w3'') (Inr ()) (Inr ())) ''w1''
       (sample_world '' Team '' (Some sample_pending))) = [''https://app.example/console''] \<and>
   assigned (handleCreateWorkspace sample_platform (sample_env (Inr ''w3'') (Inr ()) (Inr ()))
       (sample_world '' Team '' (Some sample_pending))) = [''https://app.example''] \<and>
   assigned (handleDeleteWorkspace (sample_env (Inr ''w3'') (Inr ()) (Inr ()))
       (sample_world '' Team '' (Some sample_pending))) = [''https://app.example'']"
proof -
  let ?e = "sample_env (Inr ''w3'') (Inr ()) (Inr ())"
  let ?w = "sample_world '' Team '' (Some sample_pending)"
  let ?c = "\<lparr>ws_id = ''w2'', ws_name = ''Beta'', current = True, role = ''owner'',
             plan = ''sandbox''\<rparr>"
  note all = navigation_asymmetry [of ?e "''w1''" ?w sample_platform]
  have cur: "currentWorkspace ?e = Some ?c"
    by (simp add: currentWorkspace_def sample_env_def sample_workspaces_def)
  have name: "trim sample_platform (newWorkspaceName ?w) = ''Team''"
    by (simp add: sample_platform_def sample_world_def sample_trim_def)
  have env: "switchWorkspace ?e ''w1'' = Inr () \<and> switchWorkspace ?e ''w3'' = Inr () \<and>
      createWorkspace ?e ''Team'' = Inr ''w3'' \<and> deleteWorkspace ?e ''w1'' = Inr () \<and>
      origin ?e = ''https://app.example'' \<and> basePath ?e = ''/console''"
    by (simp add: sample_env_def)
  have w: "assigned ?w = [] \<and> workspaceToDelete ?w = Some sample_pending \<and>
      pd_id sample_pending = ''w1''"
    by (simp add: sample_world_def sample_pending_def)
  have "assigned (handleSwitchWorkspace ?e ''w1'' ?w) = [''https://app.example/console'']"
    using all [THEN conjunct1, rule_format, of "()"] cur env w by simp
  moreover have "assigned (handleCreateWorkspace sample_platform ?e ?w) = [''https://app.example'']"
    using all [THEN conjunct2, THEN conjunct1, rule_format, of "''w3''" "()"] name env w by simp
  moreover have "assigned (handleDeleteWorkspace ?e ?w) = [''https://app.example'']"
    using all [THEN conjunct2, THEN conjunct2, rule_format, of sample_pending "()"] env w by simp
  ultimately show ?thesis
    by simp
qed

text \<open>
  C8. \<^verbatim>\<open>handleDeleteWorkspace\<close> with no pending deletion changes nothing. With a pending
  deletion it issues the delete call for that workspace; when the call succeeds it emits
  the one success notification and navigates to the origin; and whether the call
  succeeds or not, it ends with \<open>loading\<close> false, the confirmation closed and no pending
  deletion.
\<close>

theorem delete_confirm:
  "(workspaceToDelete w = None \<longrightarrow> handleDeleteWorkspace e w = w) \<and>
   (\<forall>pd. workspaceToDelete w = Some pd \<longrightarrow>
      calls (handleDeleteWorkspace e w) =
        calls w @ [DeleteWorkspace ''/workspaces/delete'' (Workspace_id (pd_id pd))] \<and>
      (\<forall>u. deleteWorkspace e (pd_id pd) = Inr u \<longrightarrow>
         notifications (handleDeleteWorkspace e w) = notifications w @ [deleted_successfully] \<and>
         assigned (handleDeleteWorkspace e w) = assigned w @ [origin e]) \<and>
      \<not> loading (handleDeleteWorkspace e w) \<and>
      \<not> isDeleting (handleDeleteWorkspace e w) \<and>
      workspaceToDelete (handleDeleteWorkspace e w) = None)"
proof (intro conjI allI impI)
  assume "workspaceToDelete w = None"
  then show "handleDeleteWorkspace e w = w"
    by (simp add: handleDeleteWorkspace_def)
next
  fix pd
  assume pd: "workspaceToDelete w = Some pd"
  then show "calls (handleDeleteWorkspace e w) =
      calls w @ [DeleteWorkspace ''/workspaces/delete'' (Workspace_id (pd_id pd))]"
    by (simp add: handleDeleteWorkspace_def assign_def notify_def issue_def Let_def
        split: sum.split)
  from pd show "\<not> loading (handleDeleteWorkspace e w)"
    and "\<not> isDeleting (handleDeleteWorkspace e w)"
    and "workspaceToDelete (handleDeleteWorkspace e w) = None"
    by (simp_all add: handleDeleteWorkspace_def Let_def)
  fix u
  assume "deleteWorkspace e (pd_id pd) = Inr u"
  with pd show "notifications (handleDeleteWorkspace e w) = notifications w @ [deleted_successfully]"
    and "assigned (handleDeleteWorkspace e w) = assigned w @ [origin e]"
    by (simp_all add: handleDeleteWorkspace_def assign_def notify_def issue_def Let_def
        deleted_successfully_def)
qed

theorem delete_confirm_witness:
  "handleDeleteWorkspace (sample_env (Inr ''w3'') (Inr ()) (Inr ())) (sample_world [] None) =
     sample_world [] None \<and>
   handleDeleteWorkspace (sample_env (Inr ''w3'') (Inr ()) (Inr ()))
       (sample_world [] (Some sample_pending)) =
     (sample_world [] (Some sample_pending))
       \<lparr>isDeleting := False, workspaceToDelete := None,
        calls := [DeleteWorkspace ''/workspaces/delete'' (Workspace_id ''w1'')],
        notifications := [deleted_successfully], assigned := [''https://app.example'']\<rparr>"
proof -
  let ?e = "sample_env (Inr ''w3'') (Inr ()) (Inr ())"
  let ?w0 = "sample_world [] None"
  let ?w1 = "sample_world [] (Some sample_pending)"
  have 0: "workspaceToDelete ?w0 = None"
    by (simp add: sample_world_def)
  have 1: "workspaceToDelete ?w1 = Some sample_pending"
    by (simp add: sample_world_def)
  have 2: "deleteWorkspace ?e (pd_id sample_pending) = Inr ()"
    by (simp add: sample_env_def)
  have a: "handleDeleteWorkspace ?e ?w0 = ?w0"
    using delete_confirm [of ?w0 ?e] 0 by simp
  have b: "calls (handleDeleteWorkspace ?e ?w1) =
        [DeleteWorkspace ''/workspaces/delete'' (Workspace_id ''w1'')] \<and>
      notifications (handleDeleteWorkspace ?e ?w1) = [deleted_successfully] \<and>
      assigned (handleDeleteWorkspace ?e ?w1) = [''https://app.example''] \<and>
      \<not> loading (handleDeleteWorkspace ?e ?w1) \<and>
      \<not> isDeleting (handleDeleteWorkspace ?e ?w1) \<and>
      workspaceToDelete (handleDeleteWorkspace ?e ?w1) = None"
    using delete_confirm [of ?w1 ?e, THEN conjunct2, rule_format, OF 1] 2
    by (simp add: sample_world_def sample_pending_def sample_env_def)
  have c: "isCreating (handleDeleteWorkspace ?e ?w1) = True \<and>
      newWorkspaceName (handleDeleteWorkspace ?e ?w1) = []"
    by (simp add: handleDeleteWorkspace_def sample_world_def Let_def assign_def notify_def
        issue_def split: sum.split)
  have "handleDeleteWorkspace ?e ?w1 =
      ?w1\<lparr>isDeleting := False, workspaceToDelete := None,
        calls := [DeleteWorkspace ''/workspaces/delete'' (Workspace_id ''w1'')],
        notifications := [deleted_successfully], assigned := [''https://app.example'']\<rparr>"
    using b c by (cases "handleDeleteWorkspace ?e ?w1") (simp add: sample_world_def)
  with a show ?thesis
    by simp
qed

text \<open>
  C10. When the workspace is created but the switch to it is rejected, one invocation
  emits the "created successfully" success and then the generic "create failed" error.
\<close>

theorem create_then_switch_rejected:
  assumes "trim p (newWorkspaceName w) \<noteq> []"
    and "createWorkspace e (trim p (newWorkspaceName w)) = Inr new_id"
    and "switchWorkspace e new_id = Inl err"
  shows "create_emits p e w = [created_successfully, create_failed]"
  using assms by (simp add: create_emits_def create_created_switch_rejected)

theorem create_then_switch_rejected_witness:
  "trim sample_platform (newWorkspaceName (sample_world '' Team '' None)) \<noteq> [] \<and>
   create_emits sample_platform (sample_env (Inr ''w3'') (Inl (Rejection None)) (Inr ()))
     (sample_world '' Team '' None) = [created_successfully, create_failed]"
proof -
  let ?e = "sample_env (Inr ''w3'') (Inl (Rejection None)) (Inr ())"
  let ?w = "sample_world '' Team '' None"
  have 1: "trim sample_platform (newWorkspaceName ?w) \<noteq> []"
    by (simp add: sample_platform_def sample_world_def sample_trim_def)
  have 2: "createWorkspace ?e (trim sample_platform (newWorkspaceName ?w)) = Inr ''w3''"
    by (simp add: sample_env_def)
  have 3: "switchWorkspace ?e ''w3'' = Inl (Rejection None)"
    by (simp add: sample_env_def)
  from 1 create_then_switch_rejected [OF 1 2 3] show ?thesis
    by simp
qed

end
